theory Spec2Isabelle
  imports Complex_Main "HOL-Library.Sublist"
begin

section \<open>JavaScript values read from the external tool\<close>

text \<open>
  A JavaScript string is modelled by \<^typ>\<open>string\<close>: each character stands for one
  UTF-16 code unit below 256. The numbers \<open>JSON.parse\<close> can return are the finite
  doubles (all of them rationals; the two zeros are not told apart) and the two
  infinities, which it returns for a literal too large for a double.
\<close>

datatype js_number = Finite rat | PosInfinity | NegInfinity

datatype json =
    JNull
  | JBool bool
  | JNum js_number
  | JStr string
  | JArr "json list"
  | JObj "(string \<times> json) list"

text \<open>
  \<open>JSON.parse\<close> belongs to the language runtime, not to the repository. The adapter
  below takes it as a parameter of this type: \<open>None\<close> is the \<open>SyntaxError\<close> it throws,
  \<open>Some v\<close> the value it returns. An object is the list of its own properties, each
  key once.
\<close>

type_synonym json_parser = "string \<Rightarrow> json option"

text \<open>ToBoolean on the values a parsed document can hold.\<close>

fun truthy :: "json \<Rightarrow> bool" where
  "truthy JNull = False"
| "truthy (JBool b) = b"
| "truthy (JNum n) = (n \<noteq> Finite 0)"
| "truthy (JStr s) = (s \<noteq> [])"
| "truthy (JArr xs) = True"
| "truthy (JObj kvs) = True"

text \<open>
  The property read \<open>sfError.message\<close>: a \<open>TypeError\<close> on \<open>null\<close> (\<open>Inl\<close>), the
  property's value on an object that has it, \<open>undefined\<close> (\<open>None\<close>) on everything else.
\<close>

datatype type_error = TypeError

fun get_message :: "json \<Rightarrow> type_error + json option" where
  "get_message JNull = Inl TypeError"
| "get_message (JObj kvs) = Inr (map_of kvs ''message'')"
| "get_message v = Inr None"

text \<open>\<open>a || b\<close> where \<open>a\<close> may be \<open>undefined\<close> and \<open>b\<close> is a string.\<close>

fun js_or :: "json option \<Rightarrow> string \<Rightarrow> json" where
  "js_or None d = JStr d"
| "js_or (Some v) d = (if truthy v then v else JStr d)"

text \<open>
  \<open>String.prototype.trim\<close>: the white space and line terminators of ECMAScript among
  the code units below 256.
\<close>

definition is_js_space :: "char \<Rightarrow> bool" where
  "is_js_space c =
     (c = CHR 0x09 \<or> c = CHR 0x0A \<or> c = CHR 0x0B \<or> c = CHR 0x0C \<or> c = CHR 0x0D
      \<or> c = CHR 0x20 \<or> c = CHR 0xA0)"

definition trim :: "string \<Rightarrow> string" where
  "trim s = rev (dropWhile is_js_space (rev (dropWhile is_js_space s)))"

section \<open>The command execution adapter\<close>

text \<open>
  \<open>executeSfCommand\<close> settles its promise inside the callback of \<open>exec\<close>, from the three
  arguments the callback receives: \<open>error\<close> (\<open>null\<close>, or the exception of a process that
  exited non-zero or could not be launched; the model keeps its message), \<open>stdout\<close> and
  \<open>stderr\<close>. A rejection is either an \<open>Error\<close> built by the adapter, \<open>new Error(v)\<close>,
  whose message is \<open>v\<close> converted to a string (\<open>v\<close> itself when it is a string), or the
  exception of \<open>exec\<close> passed on as it is.
\<close>

datatype js_error = NewError json | ExecError string

datatype outcome = Resolve json | Reject js_error

text \<open>
  The body shared by the two \<open>try\<close> blocks: \<open>JSON.parse(stderr)\<close>, then
  \<open>new Error(sfError.message || stderr)\<close>. \<open>None\<close> means an exception was thrown and
  the \<open>catch\<close> runs.
\<close>

definition sf_error :: "json_parser \<Rightarrow> string \<Rightarrow> js_error option" where
  "sf_error JSON_parse stderr =
     (case JSON_parse stderr of
        None \<Rightarrow> None
      | Some sfError \<Rightarrow>
          (case get_message sfError of
             Inl TypeError \<Rightarrow> None
           | Inr m \<Rightarrow> Some (NewError (js_or m stderr))))"

definition executeSfCommand ::
  "json_parser \<Rightarrow> string option \<Rightarrow> string \<Rightarrow> string \<Rightarrow> outcome" where
  "executeSfCommand JSON_parse error stdout stderr =
     (case error of
        Some e \<Rightarrow>
          (case sf_error JSON_parse stderr of
             Some r \<Rightarrow> Reject r
           | None \<Rightarrow> Reject (ExecError e))
      | None \<Rightarrow>
          if stderr \<noteq> [] \<and> stdout = [] then
            (case sf_error JSON_parse stderr of
               Some r \<Rightarrow> Reject r
             | None \<Rightarrow> Reject (NewError (JStr stderr)))
          else
            (case JSON_parse stdout of
               Some result \<Rightarrow> Resolve result
             | None \<Rightarrow> Resolve (JObj [(''message'', JStr (trim stdout))])))"

text \<open>The outcome as the specification names it.\<close>

fun is_Failure :: "outcome \<Rightarrow> bool" where
  "is_Failure (Reject r) = True"
| "is_Failure (Resolve v) = False"

text \<open>
  The message of a failure, when it is a string: the string given to \<open>new Error\<close>,
  or the message of the exception of \<open>exec\<close>.
\<close>

fun failure_message :: "outcome \<Rightarrow> string option" where
  "failure_message (Reject (NewError (JStr m))) = Some m"
| "failure_message (Reject (ExecError m)) = Some m"
| "failure_message out = None"

text \<open>
  What \<open>JSON.parse\<close> does on the texts used as examples below (ECMA-404: a bare word
  or the empty text is no JSON value). Every other text is left unparsed here.
\<close>

definition JSON_parse_sample :: json_parser where
  \<open>JSON_parse_sample s =
     (if s = ''{"message":"INVALID_SESSION_ID"}''
      then Some (JObj [(''message'', JStr ''INVALID_SESSION_ID'')])
      else if s = ''null'' then Some JNull
      else if s = ''[]'' then Some (JArr [])
      else None)\<close>

section \<open>The manifest as the XML reader returns it\<close>

text \<open>
  \<open>parseStringPromise\<close> and \<open>Builder.buildObject\<close> belong to the library \<open>xml2js\<close>; the
  tools take what they return. The reader binds every child element to an array: a
  \<open>types\<close> element is an object whose \<open>name\<close> and \<open>members\<close> are arrays of texts, absent
  (\<open>undefined\<close>, here \<open>None\<close>) when the element has no such child. \<open>Package\<close> is \<open>None\<close>
  when the root is not a \<open>Package\<close> element or is an empty one (the empty string, falsy
  as \<open>undefined\<close> is); \<open>xmlns\<close> is the attribute \<open>$.xmlns\<close> of the root.
\<close>

record type_entry =
  name :: "string list option"
  members :: "string list option"

record package =
  xmlns :: "string option"
  types :: "type_entry list option"
  version :: "string list option"

record parsed_xml =
  Package :: "package option"

text \<open>
  The reader as a parameter: \<open>Inl msg\<close> when its promise is rejected (the text is not
  well-formed XML), \<open>Inr None\<close> for the \<open>null\<close> it returns on a blank text. The builder
  is a parameter too, and the file system is a map from paths to contents.
\<close>

type_synonym xml_reader = "string \<Rightarrow> string + parsed_xml option"
type_synonym xml_builder = "parsed_xml \<Rightarrow> string"
type_synonym files = "string \<rightharpoonup> string"

text \<open>The message of the \<open>TypeError\<close> raised by \<open>parsedXml.Package\<close> on \<open>null\<close>.\<close>

definition null_Package_message :: string where
  "null_Package_message =
     ''Cannot read properties of null (reading '' @ [CHR 0x27] @ ''Package'' @ [CHR 0x27] @ '')''"

text \<open>\<open>type.name?.[0]\<close>\<close>

definition typeName :: "type_entry \<Rightarrow> string option" where
  "typeName t = (case name t of None \<Rightarrow> None | Some [] \<Rightarrow> None | Some (n # ns) \<Rightarrow> Some n)"

text \<open>
  The member list of an entry as the specification has it: empty when the element
  has no \<open>members\<close> child.
\<close>

definition memberList :: "type_entry \<Rightarrow> string list" where
  "memberList t = (case members t of Some ms \<Rightarrow> ms | None \<Rightarrow> [])"

text \<open>
  \<open>xs.slice(0, e)\<close> for an integral \<open>e\<close>: a negative end counts from the end of the
  array, and the result is never longer than the array.
\<close>

definition slice0 :: "'a list \<Rightarrow> int \<Rightarrow> 'a list" where
  "slice0 xs e = (if e < 0 then take (nat (int (length xs) + e)) xs else take (nat e) xs)"

fun join :: "string \<Rightarrow> string list \<Rightarrow> string" where
  "join sep [] = []"
| "join sep [x] = x"
| "join sep (x # y # ys) = x @ sep @ join sep (y # ys)"

text \<open>
  \<open>s.replace(pat, rep)\<close> with a string pattern: the first occurrence is replaced, and
  in the replacement \<open>$$\<close>, \<open>$&\<close>, \<open>$`\<close> and \<open>$'\<close> stand for a dollar, the match, the
  text before it and the text after it.
\<close>

fun split_at_first :: "string \<Rightarrow> string \<Rightarrow> (string \<times> string) option" where
  "split_at_first pat [] = (if pat = [] then Some ([], []) else None)"
| "split_at_first pat (c # s) =
     (if take (length pat) (c # s) = pat then Some ([], drop (length pat) (c # s))
      else map_option (\<lambda>(b, a). (c # b, a)) (split_at_first pat s))"

fun getSubstitution :: "string \<Rightarrow> string \<Rightarrow> string \<Rightarrow> string \<Rightarrow> string" where
  "getSubstitution m b a [] = []"
| "getSubstitution m b a [c] = [c]"
| "getSubstitution m b a (c # d # r) =
     (if c = CHR ''$'' \<and> d = CHR ''$'' then CHR ''$'' # getSubstitution m b a r
      else if c = CHR ''$'' \<and> d = CHR ''&'' then m @ getSubstitution m b a r
      else if c = CHR ''$'' \<and> d = CHR 0x60 then b @ getSubstitution m b a r
      else if c = CHR ''$'' \<and> d = CHR 0x27 then a @ getSubstitution m b a r
      else c # getSubstitution m b a (d # r))"

definition js_replace :: "string \<Rightarrow> string \<Rightarrow> string \<Rightarrow> string" where
  "js_replace s pat rep =
     (case split_at_first pat s of
        None \<Rightarrow> s
      | Some (b, a) \<Rightarrow> b @ getSubstitution pat b a rep @ a)"

section \<open>The manifest summary\<close>

record SummaryItem =
  itemName :: "string option"
  memberCount :: nat
  sampleMembers :: "string list"

text \<open>The callback of \<open>types.map\<close> in \<open>getManifestSummary\<close>.\<close>

definition summaryItem :: "type_entry \<Rightarrow> SummaryItem" where
  "summaryItem t =
     \<lparr> itemName = typeName t,
       memberCount = (case members t of Some ms \<Rightarrow> length ms | None \<Rightarrow> 0),
       sampleMembers = (case members t of Some ms \<Rightarrow> slice0 ms 3 | None \<Rightarrow> []) \<rparr>"

text \<open>
  The tool answers with one text, built from \<open>summary\<close> (its length is the number of
  types) and \<open>totalItems\<close>; the model returns the two instead of the text. An exception
  anywhere in the \<open>try\<close> block is thrown again with the prefix of the tool.
\<close>

record summary_report =
  summary :: "SummaryItem list"
  totalItems :: nat

definition invalid_format :: string where
  "invalid_format = ''Invalid package.xml format''"

definition summaryOf :: "parsed_xml \<Rightarrow> string + summary_report" where
  "summaryOf parsedXml =
     (case Package parsedXml of
        None \<Rightarrow> Inl invalid_format
      | Some p \<Rightarrow>
          (case types p of
             None \<Rightarrow> Inl invalid_format
           | Some tys \<Rightarrow>
               Inr \<lparr> summary = map summaryItem tys,
                     totalItems =
                       foldl (\<lambda>sum t. sum + memberCount t) 0 (map summaryItem tys) \<rparr>))"

definition getManifestSummary ::
  "xml_reader \<Rightarrow> files \<Rightarrow> string \<Rightarrow> string + summary_report" where
  "getManifestSummary parseString fs manifestPath =
     (case
        (case fs manifestPath of
           None \<Rightarrow> Inl (''Manifest file not found at: '' @ manifestPath)
         | Some xmlContent \<Rightarrow>
             (case parseString xmlContent of
                Inl msg \<Rightarrow> Inl msg
              | Inr None \<Rightarrow> Inl null_Package_message
              | Inr (Some parsedXml) \<Rightarrow> summaryOf parsedXml))
      of
        Inl msg \<Rightarrow> Inl (''Failed to get manifest summary: '' @ msg)
      | Inr r \<Rightarrow> Inr r)"

section \<open>The manifest filter\<close>

text \<open>
  The callback of \<open>map\<close> in \<open>filterManifest\<close>: an entry with more members than the
  limit is copied with the first members only, every other entry is returned as it is.
  The limit is a number of the caller's (any number passes the schema of the tool);
  the model takes it integral.
\<close>

definition limitMembers :: "int \<Rightarrow> type_entry \<Rightarrow> type_entry" where
  "limitMembers maxItemsPerType t =
     (case members t of
        Some ms \<Rightarrow>
          if int (length ms) > maxItemsPerType
          then t\<lparr>members := Some (slice0 ms maxItemsPerType)\<rparr>
          else t
      | None \<Rightarrow> t)"

definition filteredTypes :: "string list \<Rightarrow> int \<Rightarrow> type_entry list \<Rightarrow> type_entry list" where
  "filteredTypes metadataTypes maxItemsPerType tys =
     map (limitMembers maxItemsPerType)
       (filter (\<lambda>t. case typeName t of None \<Rightarrow> False | Some n \<Rightarrow> n \<in> set metadataTypes) tys)"

definition metadata_xmlns :: string where
  "metadata_xmlns = ''http://soap.sforce.com/2006/04/metadata''"

definition filteredPackage :: "string list \<Rightarrow> int \<Rightarrow> parsed_xml \<Rightarrow> string + parsed_xml" where
  "filteredPackage metadataTypes maxItemsPerType parsedXml =
     (case Package parsedXml of
        None \<Rightarrow> Inl invalid_format
      | Some p \<Rightarrow>
          (case types p of
             None \<Rightarrow> Inl invalid_format
           | Some tys \<Rightarrow>
               Inr \<lparr> Package = Some
                 \<lparr> xmlns = Some metadata_xmlns,
                   types = Some (filteredTypes metadataTypes maxItemsPerType tys),
                   version = version p \<rparr> \<rparr>))"

text \<open>The document of a successful \<open>filteredPackage\<close>: its types, else none.\<close>

definition typesOf :: "parsed_xml \<Rightarrow> type_entry list" where
  "typesOf parsedXml =
     (case Package parsedXml of
        None \<Rightarrow> []
      | Some p \<Rightarrow> (case types p of None \<Rightarrow> [] | Some tys \<Rightarrow> tys))"

text \<open>
  What the tool leaves behind: the file system after the write (\<open>writeFileSync\<close> is
  taken to succeed), the path written and the total it reports. \<open>maxItemsPerType\<close>
  defaults to 500; \<open>outputPath\<close> is used when it is given and not empty, else the path
  of the manifest with \<open>package.xml\<close> replaced.
\<close>

definition defaultOutputPath :: "string \<Rightarrow> string list \<Rightarrow> string" where
  "defaultOutputPath manifestPath metadataTypes =
     js_replace manifestPath ''package.xml''
       (''package-filtered-'' @ join ''-'' metadataTypes @ ''.xml'')"

record filter_report =
  written :: files
  finalOutputPath :: string
  reportedItems :: nat

definition filterManifest ::
  "xml_reader \<Rightarrow> xml_builder \<Rightarrow> files \<Rightarrow> string \<Rightarrow> string list \<Rightarrow> string option
     \<Rightarrow> int option \<Rightarrow> string + filter_report" where
  "filterManifest parseString buildObject fs manifestPath metadataTypes outputPath maxItems =
     (case
        (case fs manifestPath of
           None \<Rightarrow> Inl (''Manifest file not found at: '' @ manifestPath)
         | Some xmlContent \<Rightarrow>
             (case parseString xmlContent of
                Inl msg \<Rightarrow> Inl msg
              | Inr None \<Rightarrow> Inl null_Package_message
              | Inr (Some parsedXml) \<Rightarrow>
                  (case filteredPackage metadataTypes
                          (case maxItems of None \<Rightarrow> 500 | Some n \<Rightarrow> n) parsedXml of
                     Inl msg \<Rightarrow> Inl msg
                   | Inr filtered \<Rightarrow>
                       (let path =
                              (case outputPath of
                                 Some p \<Rightarrow>
                                   if p \<noteq> [] then p
                                   else defaultOutputPath manifestPath metadataTypes
                               | None \<Rightarrow> defaultOutputPath manifestPath metadataTypes)
                        in Inr \<lparr> written = fs(path \<mapsto> buildObject filtered),
                                 finalOutputPath = path,
                                 reportedItems =
                                   foldl (\<lambda>sum t. sum
                                       + (case members t of Some ms \<Rightarrow> length ms | None \<Rightarrow> 0))
                                     0 (typesOf filtered) \<rparr>))))
      of
        Inl msg \<Rightarrow> Inl (''Failed to filter manifest: '' @ msg)
      | Inr r \<Rightarrow> Inr r)"

section \<open>Limiting a generated manifest\<close>

text \<open>
  \<open>filterLargeManifest\<close> maps the same callback over every entry; the callback also sets
  the variable \<open>modified\<close> of the enclosing function, which starts \<open>false\<close>. The flag is
  threaded through the traversal here.
\<close>

fun limitAll :: "int \<Rightarrow> bool \<Rightarrow> type_entry list \<Rightarrow> type_entry list \<times> bool" where
  "limitAll maxItemsPerType modified [] = ([], modified)"
| "limitAll maxItemsPerType modified (t # ts) =
     (case members t of
        Some ms \<Rightarrow>
          if int (length ms) > maxItemsPerType
          then (case limitAll maxItemsPerType True ts of
                  (r, m) \<Rightarrow> (t\<lparr>members := Some (slice0 ms maxItemsPerType)\<rparr> # r, m))
          else (case limitAll maxItemsPerType modified ts of (r, m) \<Rightarrow> (t # r, m))
      | None \<Rightarrow> (case limitAll maxItemsPerType modified ts of (r, m) \<Rightarrow> (t # r, m)))"

text \<open>
  The function returns nothing; its effect is the file, written again only when
  \<open>modified\<close> is set. Reading a missing file throws.
\<close>

definition filterLargeManifest ::
  "xml_reader \<Rightarrow> xml_builder \<Rightarrow> files \<Rightarrow> string \<Rightarrow> int \<Rightarrow> string + files" where
  "filterLargeManifest parseString buildObject fs manifestPath maxItemsPerType =
     (case fs manifestPath of
        None \<Rightarrow> Inl (''ENOENT: no such file or directory, open ''
                     @ [CHR 0x27] @ manifestPath @ [CHR 0x27])
      | Some xmlContent \<Rightarrow>
          (case parseString xmlContent of
             Inl msg \<Rightarrow> Inl msg
           | Inr None \<Rightarrow> Inl null_Package_message
           | Inr (Some parsedXml) \<Rightarrow>
               (case Package parsedXml of
                  None \<Rightarrow> Inr fs
                | Some p \<Rightarrow>
                    (case types p of
                       None \<Rightarrow> Inr fs
                     | Some tys \<Rightarrow>
                         (case limitAll maxItemsPerType False tys of
                            (limited, modified) \<Rightarrow>
                              if modified
                              then Inr (fs(manifestPath \<mapsto>
                                     buildObject (parsedXml\<lparr>Package := Some (p\<lparr>types := Some limited\<rparr>)\<rparr>)))
                              else Inr fs)))))"

section \<open>Sample inputs\<close>

definition apexClasses :: type_entry where
  "apexClasses = \<lparr> name = Some [''ApexClass''], members = Some [''A'', ''B'', ''C'', ''D'', ''E''] \<rparr>"

definition apexPages :: type_entry where
  "apexPages = \<lparr> name = Some [''ApexPage''], members = Some [''Home'', ''Login''] \<rparr>"

definition manifest_of :: "type_entry list \<Rightarrow> parsed_xml" where
  "manifest_of tys =
     \<lparr> Package = Some \<lparr> xmlns = Some metadata_xmlns, types = Some tys, version = Some [''58.0''] \<rparr> \<rparr>"

text \<open>
  A builder and a reader for the examples. The builder writes the elements one after
  the other; the reader knows the texts so built of four documents (a manifest of two
  types, a manifest of one type, a \<open>Package\<close> with a version and no \<open>types\<close>, a root of
  another name), returns \<open>null\<close> on the empty text and rejects every other text.
\<close>

definition element :: "string \<Rightarrow> string \<Rightarrow> string" where
  "element tag body = ''<'' @ tag @ ''>'' @ body @ ''</'' @ tag @ ''>''"

definition buildObject_sample :: xml_builder where
  "buildObject_sample parsedXml =
     (case Package parsedXml of
        None \<Rightarrow> ''<Profile/>''
      | Some p \<Rightarrow>
          ''<Package''
          @ (case xmlns p of Some u \<Rightarrow> '' xmlns='' @ [CHR 0x22] @ u @ [CHR 0x22] | None \<Rightarrow> [])
          @ ''>''
          @ concat (map (\<lambda>t. element ''types''
                 (concat (map (element ''name'') (case name t of Some ns \<Rightarrow> ns | None \<Rightarrow> []))
                  @ concat (map (element ''members'') (memberList t))))
               (case types p of Some tys \<Rightarrow> tys | None \<Rightarrow> []))
          @ concat (map (element ''version'') (case version p of Some vs \<Rightarrow> vs | None \<Rightarrow> []))
          @ ''</Package>'')"

definition no_types :: parsed_xml where
  "no_types = \<lparr> Package = Some \<lparr> xmlns = None, types = None, version = Some [''58.0''] \<rparr> \<rparr>"

definition parseString_sample :: xml_reader where
  "parseString_sample x =
     (if x = buildObject_sample (manifest_of [apexClasses, apexPages])
      then Inr (Some (manifest_of [apexClasses, apexPages]))
      else if x = buildObject_sample (manifest_of [apexClasses])
      then Inr (Some (manifest_of [apexClasses]))
      else if x = buildObject_sample no_types then Inr (Some no_types)
      else if x = ''<Profile/>'' then Inr (Some \<lparr> Package = None \<rparr>)
      else if x = [] then Inr None
      else Inl ''Unclosed root tag'')"

definition files_sample :: files where
  "files_sample =
     [''manifest/package.xml'' \<mapsto> buildObject_sample (manifest_of [apexClasses, apexPages]),
      ''one/package.xml'' \<mapsto> buildObject_sample (manifest_of [apexClasses]),
      ''empty/package.xml'' \<mapsto> buildObject_sample no_types,
      ''profile/package.xml'' \<mapsto> ''<Profile/>'',
      ''blank/package.xml'' \<mapsto> [],
      ''broken/package.xml'' \<mapsto> ''<Package>'']"

section \<open>Facts about the model\<close>

lemma slice0_nonneg: "0 \<le> e \<Longrightarrow> slice0 xs e = take (nat e) xs"
  by (simp add: slice0_def)


lemma limitAll_map:
  "limitAll mx m tys =
     (map (limitMembers mx) tys,
      m \<or> (\<exists>t \<in> set tys. \<exists>ms. members t = Some ms \<and> mx < int (length ms)))"
  by (induction tys arbitrary: m) (auto simp: limitMembers_def split: option.splits)




lemma limitMembers_positive:
  assumes "0 < mx"
  shows "if mx < int (memberCount (summaryItem t))
         then members (limitMembers mx t) = Some (take (nat mx) (memberList t))
              \<and> length (memberList (limitMembers mx t)) = nat mx
              \<and> name (limitMembers mx t) = name t
         else limitMembers mx t = t"
  using assms
  by (cases "members t")
     (auto simp: limitMembers_def summaryItem_def memberList_def slice0_nonneg min_def)

lemma includes_predicate:
  "(\<lambda>t. case typeName t of None \<Rightarrow> False | Some n \<Rightarrow> n \<in> set mts)
   = (\<lambda>t. \<exists>n \<in> set mts. typeName t = Some n)"
  by (auto split: option.splits)



text \<open>The sample reader on the sample files.\<close>

lemmas sample_defs = apexClasses_def apexPages_def manifest_of_def no_types_def
  buildObject_sample_def element_def memberList_def metadata_xmlns_def


lemma read_one:
  "parseString_sample (buildObject_sample (manifest_of [apexClasses]))
     = Inr (Some (manifest_of [apexClasses]))"
  by (simp add: parseString_sample_def sample_defs)

lemma read_no_types:
  "parseString_sample (buildObject_sample no_types) = Inr (Some no_types)"
  by (simp add: parseString_sample_def sample_defs)

lemma read_profile: "parseString_sample ''<Profile/>'' = Inr (Some \<lparr> Package = None \<rparr>)"
  by (simp add: parseString_sample_def sample_defs)

lemma read_blank: "parseString_sample [] = Inr None"
  by (simp add: parseString_sample_def sample_defs)

lemma read_broken: "parseString_sample ''<Package>'' = Inl ''Unclosed root tag''"
  by (simp add: parseString_sample_def sample_defs)

lemma files_sample_simps:
  "files_sample ''manifest/package.xml''
     = Some (buildObject_sample (manifest_of [apexClasses, apexPages]))"
  "files_sample ''one/package.xml'' = Some (buildObject_sample (manifest_of [apexClasses]))"
  "files_sample ''empty/package.xml'' = Some (buildObject_sample no_types)"
  "files_sample ''profile/package.xml'' = Some ''<Profile/>''"
  "files_sample ''blank/package.xml'' = Some []"
  "files_sample ''broken/package.xml'' = Some ''<Package>''"
  by (simp_all add: files_sample_def)


section \<open>The command execution adapter: classification\<close>

text \<open>
  Claim C1. When the process exits successfully (\<open>error\<close> is \<open>null\<close>): error-channel text
  with no standard output is a failure; in every other case the outcome is decided
  last by parsing the standard output, and is a success either way: the parsed value,
  or the wrapper \<open>{message: stdout.trim()}\<close> when the text does not parse. So a
  non-empty standard output is never a failure, and \<open>Done.\<close>, which is no JSON text,
  gives \<open>{message: "Done."}\<close>.
\<close>

theorem executeSfCommand_success_precedence:
  "(stderr \<noteq> [] \<and> stdout = [] \<longrightarrow> is_Failure (executeSfCommand P None stdout stderr))
   \<and> (\<not> (stderr \<noteq> [] \<and> stdout = []) \<longrightarrow>
        executeSfCommand P None stdout stderr =
          (case P stdout of
             Some v \<Rightarrow> Resolve v
           | None \<Rightarrow> Resolve (JObj [(''message'', JStr (trim stdout))])))
   \<and> (stdout \<noteq> [] \<longrightarrow> \<not> is_Failure (executeSfCommand P None stdout stderr))
   \<and> (P ''Done.'' = None \<longrightarrow>
        executeSfCommand P None ''Done.'' stderr = Resolve (JObj [(''message'', JStr ''Done.'')]))"
  by (simp add: executeSfCommand_def trim_def is_js_space_def split: option.splits)

theorem executeSfCommand_success_precedence_witness:
  "is_Failure (executeSfCommand JSON_parse_sample None [] ''boom'')
   \<and> executeSfCommand JSON_parse_sample None ''[]'' [] = Resolve (JArr [])
   \<and> \<not> is_Failure (executeSfCommand JSON_parse_sample None ''Done.'' ''warning'')
   \<and> JSON_parse_sample ''Done.'' = None
   \<and> executeSfCommand JSON_parse_sample None ''Done.'' ''warning''
       = Resolve (JObj [(''message'', JStr ''Done.'')])"
  using executeSfCommand_success_precedence [of "''boom''" "[]" JSON_parse_sample]
    executeSfCommand_success_precedence [of "[]" "''[]''" JSON_parse_sample]
    executeSfCommand_success_precedence [of "''warning''" "''Done.''" JSON_parse_sample]
  by (simp add: JSON_parse_sample_def trim_def is_js_space_def)

text \<open>
  Claim C10. A successful exit with nothing on either channel is never a failure: the
  branch for error text without output is not taken, and since the empty text is no
  JSON text the promise resolves with \<open>{message: ""}\<close>.
\<close>

theorem executeSfCommand_silent_success:
  "\<not> is_Failure (executeSfCommand P None [] [])
   \<and> (P [] = None \<longrightarrow>
        executeSfCommand P None [] [] = Resolve (JObj [(''message'', JStr [])]))"
  by (simp add: executeSfCommand_def trim_def split: option.splits)

theorem executeSfCommand_silent_success_witness:
  "JSON_parse_sample [] = None
   \<and> executeSfCommand JSON_parse_sample None [] [] = Resolve (JObj [(''message'', JStr [])])"
  using executeSfCommand_silent_success [of JSON_parse_sample]
  by (simp add: JSON_parse_sample_def)

text \<open>
  Claim C2, as stated: after a non-zero exit or a failed launch, error-channel text that
  does not parse gives a failure whose message is that raw text. It does not: the
  \<open>catch\<close> rejects with the exception of \<open>exec\<close> itself. With the error text \<open>boom\<close> the
  message of the failure is the one of that exception.
\<close>

theorem executeSfCommand_raw_text_counterexample:
  "JSON_parse_sample ''boom'' = None
   \<and> executeSfCommand JSON_parse_sample (Some ''Command failed: sf org list'') [] ''boom''
       = Reject (ExecError ''Command failed: sf org list'')
   \<and> failure_message
         (executeSfCommand JSON_parse_sample (Some ''Command failed: sf org list'') [] ''boom'')
       \<noteq> Some ''boom''"
  by (simp add: executeSfCommand_def sf_error_def JSON_parse_sample_def)

text \<open>
  Claim C2, amended. After a non-zero exit or a failed launch the outcome is always a
  failure, decided by parsing the error-channel text first: a parsed value with a truthy
  \<open>message\<close> gives \<open>new Error\<close> of that message; a parsed value other than \<open>null\<close>
  without a truthy \<open>message\<close> gives \<open>new Error\<close> of the raw error text; text that does
  not parse (or parses to \<open>null\<close>) gives the exception of \<open>exec\<close>, unchanged. The error
  text \<open>{"message":"INVALID_SESSION_ID"}\<close> gives the message \<open>INVALID_SESSION_ID\<close>.
\<close>

theorem executeSfCommand_error_precedence:
  \<open>(P stderr = Some v \<and> get_message v = Inr (Some m) \<and> truthy m \<longrightarrow>
      executeSfCommand P (Some e) stdout stderr = Reject (NewError m))
   \<and> (P stderr = Some v
        \<and> (get_message v = Inr None \<or> (get_message v = Inr (Some m) \<and> \<not> truthy m)) \<longrightarrow>
      executeSfCommand P (Some e) stdout stderr = Reject (NewError (JStr stderr)))
   \<and> (P stderr = None \<or> P stderr = Some JNull \<longrightarrow>
      executeSfCommand P (Some e) stdout stderr = Reject (ExecError e))
   \<and> is_Failure (executeSfCommand P (Some e) stdout stderr)
   \<and> (P ''{"message":"INVALID_SESSION_ID"}''
         = Some (JObj [(''message'', JStr ''INVALID_SESSION_ID'')]) \<longrightarrow>
      failure_message (executeSfCommand P (Some e) stdout ''{"message":"INVALID_SESSION_ID"}'')
        = Some ''INVALID_SESSION_ID'')\<close>
  by (auto simp add: executeSfCommand_def sf_error_def
      split: option.splits sum.splits type_error.splits)

theorem executeSfCommand_error_precedence_witness:
  \<open>executeSfCommand JSON_parse_sample (Some ''Command failed: sf org list'') []
       ''{"message":"INVALID_SESSION_ID"}'' = Reject (NewError (JStr ''INVALID_SESSION_ID''))
   \<and> executeSfCommand JSON_parse_sample (Some ''Command failed: sf org list'') [] ''[]''
       = Reject (NewError (JStr ''[]''))
   \<and> executeSfCommand JSON_parse_sample (Some ''Command failed: sf org list'') [] ''boom''
       = Reject (ExecError ''Command failed: sf org list'')
   \<and> failure_message (executeSfCommand JSON_parse_sample (Some ''Command failed: sf org list'') []
       ''{"message":"INVALID_SESSION_ID"}'') = Some ''INVALID_SESSION_ID''\<close>
  using executeSfCommand_error_precedence [of JSON_parse_sample
      \<open>''{"message":"INVALID_SESSION_ID"}''\<close>
      "JObj [(''message'', JStr ''INVALID_SESSION_ID'')]" "JStr ''INVALID_SESSION_ID''"
      "''Command failed: sf org list''" "[]"]
    executeSfCommand_error_precedence [of JSON_parse_sample "''[]''" "JArr []" "JNull"
      "''Command failed: sf org list''" "[]"]
    executeSfCommand_error_precedence [of JSON_parse_sample "''boom''" "JNull" "JNull"
      "''Command failed: sf org list''" "[]"]
  by (simp add: JSON_parse_sample_def)

section \<open>The manifest filter: what is kept\<close>

text \<open>
  Claim C3. With a positive limit, in \<open>filterManifest\<close> (over the entries it retains)
  and in \<open>filterLargeManifest\<close> (over all entries): an entry with more members than the
  limit comes out with exactly that many members, the first ones of the original in
  their order, under the same name; an entry with at most that many members comes out
  unchanged.
\<close>

theorem truncation_is_prefix:
  assumes "0 < mx"
  shows "list_all2
           (\<lambda>t r. if mx < int (memberCount (summaryItem t))
                  then members r = Some (take (nat mx) (memberList t))
                       \<and> length (memberList r) = nat mx \<and> name r = name t
                  else r = t)
           (filter (\<lambda>t. \<exists>n \<in> set mts. typeName t = Some n) tys)
           (filteredTypes mts mx tys)
         \<and> list_all2
           (\<lambda>t r. if mx < int (memberCount (summaryItem t))
                  then members r = Some (take (nat mx) (memberList t))
                       \<and> length (memberList r) = nat mx \<and> name r = name t
                  else r = t)
           tys (fst (limitAll mx False tys))"
proof -
  have each: "list_all2
           (\<lambda>t r. if mx < int (memberCount (summaryItem t))
                  then members r = Some (take (nat mx) (memberList t))
                       \<and> length (memberList r) = nat mx \<and> name r = name t
                  else r = t)
           xs (map (limitMembers mx) xs)" for xs
    unfolding list_all2_map2 using limitMembers_positive [OF assms]
    by (intro list_all2_all_nthI) auto
  show ?thesis
    using each by (simp add: filteredTypes_def includes_predicate limitAll_map)
qed

theorem truncation_is_prefix_witness:
  "(0::int) < 3
   \<and> filter (\<lambda>t. \<exists>n \<in> set [''ApexClass'']. typeName t = Some n) [apexClasses, apexPages]
       = [apexClasses]
   \<and> filteredTypes [''ApexClass''] 3 [apexClasses, apexPages]
       = [\<lparr> name = Some [''ApexClass''], members = Some [''A'', ''B'', ''C''] \<rparr>]
   \<and> fst (limitAll 3 False [apexClasses, apexPages])
       = [\<lparr> name = Some [''ApexClass''], members = Some [''A'', ''B'', ''C''] \<rparr>, apexPages]"
  using truncation_is_prefix [of 3 "[''ApexClass'']" "[apexClasses, apexPages]"]
  by (simp add: filteredTypes_def limitMembers_def typeName_def apexClasses_def apexPages_def
      slice0_def)






section \<open>The manifest summary: one item per type\<close>




section \<open>Limiting a generated manifest: the flag\<close>

text \<open>
  Claim C7, as stated: the \<open>modified\<close> flag reports for each entry whether that entry was
  truncated. There is one flag for the document: limiting \<open>ApexClass\<close> (five members)
  and \<open>ApexPage\<close> (two members) to 3 sets it, though \<open>ApexPage\<close> is left as it was.
\<close>

theorem modified_per_entry_counterexample:
  "limitAll 3 False [apexClasses, apexPages]
     = ([\<lparr> name = Some [''ApexClass''], members = Some [''A'', ''B'', ''C''] \<rparr>, apexPages], True)
   \<and> limitMembers 3 apexPages = apexPages
   \<and> snd (limitAll 3 False [apexClasses, apexPages]) \<noteq> (limitMembers 3 apexPages \<noteq> apexPages)"
  by (simp add: limitMembers_def apexClasses_def apexPages_def slice0_def)

text \<open>
  Claim C7, amended. \<open>filterLargeManifest\<close> applies the truncation of the filter to every
  entry, with no name filter, and keeps one flag \<open>modified\<close> for the document, set
  exactly when some entry has more members than the limit; the flag is not returned,
  it decides whether the manifest file is written again. One entry \<open>ApexClass\<close> with
  members \<open>A\<close> to \<open>E\<close>, limited to 3, gives the members \<open>A\<close>, \<open>B\<close>, \<open>C\<close> and sets the flag.
\<close>

theorem auto_limit_flag:
  "fst (limitAll mx False tys) = map (limitMembers mx) tys
   \<and> snd (limitAll mx False tys)
       = (\<exists>t \<in> set tys. members t \<noteq> None \<and> mx < int (length (memberList t)))
   \<and> limitAll 3 False [apexClasses]
       = ([\<lparr> name = Some [''ApexClass''], members = Some [''A'', ''B'', ''C''] \<rparr>], True)
   \<and> (fs path = Some x \<and> parseString x = Inr (Some px) \<and> Package px = Some p \<and> types p = Some tys
        \<longrightarrow> filterLargeManifest parseString buildObject fs path mx =
             Inr (if snd (limitAll mx False tys)
                  then fs(path \<mapsto> buildObject
                         (px\<lparr>Package := Some (p\<lparr>types := Some (map (limitMembers mx) tys)\<rparr>)\<rparr>))
                  else fs))"
proof -
  have flag: "snd (limitAll mx False tys)
       = (\<exists>t \<in> set tys. members t \<noteq> None \<and> mx < int (length (memberList t)))"
    unfolding limitAll_map memberList_def by (simp, fastforce)
  have s1: "limitAll 3 False [apexClasses]
       = ([\<lparr> name = Some [''ApexClass''], members = Some [''A'', ''B'', ''C''] \<rparr>], True)"
    by (simp add: apexClasses_def slice0_def)
  have run: "fs path = Some x \<and> parseString x = Inr (Some px) \<and> Package px = Some p \<and> types p = Some tys
        \<longrightarrow> filterLargeManifest parseString buildObject fs path mx =
             Inr (if snd (limitAll mx False tys)
                  then fs(path \<mapsto> buildObject
                         (px\<lparr>Package := Some (p\<lparr>types := Some (map (limitMembers mx) tys)\<rparr>)\<rparr>))
                  else fs)"
    by (auto simp add: filterLargeManifest_def limitAll_map)
  show ?thesis using flag s1 run by (simp add: limitAll_map)
qed

theorem auto_limit_flag_witness:
  "filterLargeManifest parseString_sample buildObject_sample files_sample ''one/package.xml'' 3
     = Inr (files_sample(''one/package.xml'' \<mapsto> buildObject_sample
         (manifest_of [\<lparr> name = Some [''ApexClass''], members = Some [''A'', ''B'', ''C''] \<rparr>])))
   \<and> filterLargeManifest parseString_sample buildObject_sample files_sample ''one/package.xml'' 5
     = Inr files_sample
   \<and> limitAll 3 False [apexClasses]
       = ([\<lparr> name = Some [''ApexClass''], members = Some [''A'', ''B'', ''C''] \<rparr>], True)"
proof -
  have l3: "limitAll 3 False [apexClasses]
       = ([\<lparr> name = Some [''ApexClass''], members = Some [''A'', ''B'', ''C''] \<rparr>], True)"
    by (simp add: apexClasses_def slice0_def)
  have l5: "limitAll 5 False [apexClasses] = ([apexClasses], False)"
    by (simp add: apexClasses_def)
  have m3: "map (limitMembers 3) [apexClasses]
      = [\<lparr> name = Some [''ApexClass''], members = Some [''A'', ''B'', ''C''] \<rparr>]"
    by (simp add: limitMembers_def apexClasses_def slice0_def)
  note inst = auto_limit_flag [of _ "[apexClasses]" files_sample "''one/package.xml''"
      "buildObject_sample (manifest_of [apexClasses])" parseString_sample
      "manifest_of [apexClasses]"
      "\<lparr> xmlns = Some metadata_xmlns, types = Some [apexClasses], version = Some [''58.0''] \<rparr>"
      buildObject_sample]
  have a: "filterLargeManifest parseString_sample buildObject_sample files_sample ''one/package.xml'' 3
     = Inr (files_sample(''one/package.xml'' \<mapsto> buildObject_sample
         (manifest_of [\<lparr> name = Some [''ApexClass''], members = Some [''A'', ''B'', ''C''] \<rparr>])))"
    using inst [of 3] files_sample_simps(2) read_one l3 m3
    by (simp add: manifest_of_def)
  have b: "filterLargeManifest parseString_sample buildObject_sample files_sample ''one/package.xml'' 5
     = Inr files_sample"
    using inst [of 5] files_sample_simps(2) read_one l5
    by (simp add: manifest_of_def)
  show ?thesis using a b l3 by simp
qed

section \<open>Manifests that are rejected\<close>

text \<open>
  Claim C8. When the text of the manifest file is not well-formed (the reader rejects
  it), has no \<open>Package\<close> root, or has a \<open>Package\<close> root without a \<open>types\<close> collection, the
  summary and the filter both fail: with the message of the reader in the first case,
  with \<open>Invalid package.xml format\<close> in the other two, each under the prefix of the
  tool. A failure carries no report, and the filter writes nothing. Both fail as well
  on a blank text, which the reader turns into \<open>null\<close>.
\<close>

theorem invalid_manifest_rejected:
  assumes "fs path = Some x"
  shows "(parseString x = Inl msg \<longrightarrow>
            getManifestSummary parseString fs path = Inl (''Failed to get manifest summary: '' @ msg)
          \<and> filterManifest parseString buildObject fs path mts out quota
              = Inl (''Failed to filter manifest: '' @ msg))
       \<and> (parseString x = Inr (Some px)
             \<and> (Package px = None \<or> (\<exists>p. Package px = Some p \<and> types p = None)) \<longrightarrow>
            getManifestSummary parseString fs path
              = Inl ''Failed to get manifest summary: Invalid package.xml format''
          \<and> filterManifest parseString buildObject fs path mts out quota
              = Inl ''Failed to filter manifest: Invalid package.xml format'')
       \<and> (parseString x = Inr None \<longrightarrow>
            isl (getManifestSummary parseString fs path)
          \<and> isl (filterManifest parseString buildObject fs path mts out quota))"
  using assms
  by (auto simp: getManifestSummary_def filterManifest_def summaryOf_def filteredPackage_def
      invalid_format_def)

theorem invalid_manifest_rejected_witness:
  "getManifestSummary parseString_sample files_sample ''empty/package.xml''
     = Inl ''Failed to get manifest summary: Invalid package.xml format''
   \<and> filterManifest parseString_sample buildObject_sample files_sample ''empty/package.xml''
        [''ApexClass''] None None = Inl ''Failed to filter manifest: Invalid package.xml format''
   \<and> getManifestSummary parseString_sample files_sample ''profile/package.xml''
     = Inl ''Failed to get manifest summary: Invalid package.xml format''
   \<and> filterManifest parseString_sample buildObject_sample files_sample ''profile/package.xml''
        [''ApexClass''] None None = Inl ''Failed to filter manifest: Invalid package.xml format''
   \<and> getManifestSummary parseString_sample files_sample ''broken/package.xml''
     = Inl ''Failed to get manifest summary: Unclosed root tag''
   \<and> filterManifest parseString_sample buildObject_sample files_sample ''broken/package.xml''
        [''ApexClass''] None None = Inl ''Failed to filter manifest: Unclosed root tag''
   \<and> isl (getManifestSummary parseString_sample files_sample ''blank/package.xml'')
   \<and> isl (filterManifest parseString_sample buildObject_sample files_sample ''blank/package.xml''
        [''ApexClass''] None None)"
proof -
  have nt: "Package no_types = Some \<lparr> xmlns = None, types = None, version = Some [''58.0''] \<rparr>"
    by (simp add: no_types_def)
  show ?thesis
    using invalid_manifest_rejected [of files_sample "''empty/package.xml''"
        "buildObject_sample no_types" parseString_sample "''''" buildObject_sample
        "[''ApexClass'']" None None no_types]
      invalid_manifest_rejected [of files_sample "''profile/package.xml''"
        "''<Profile/>''" parseString_sample "''''" buildObject_sample
        "[''ApexClass'']" None None "\<lparr> Package = None \<rparr>"]
      invalid_manifest_rejected [of files_sample "''broken/package.xml''"
        "''<Package>''" parseString_sample "''Unclosed root tag''" buildObject_sample
        "[''ApexClass'']" None None no_types]
      invalid_manifest_rejected [of files_sample "''blank/package.xml''"
        "[]" parseString_sample "''''" buildObject_sample
        "[''ApexClass'']" None None no_types]
      files_sample_simps read_no_types read_profile read_broken read_blank nt
    by simp
qed

end
